theory Spec2Isabelle
  imports Main
begin

section \<open>The platform: markup, responses, URLs, the navigator\<close>

text \<open>
  The embed script (\<^verbatim>\<open>embed.js\<close>) replaces every element that carries the attribute
  \<^verbatim>\<open>data-embedsrc\<close> by the HTML fragment fetched from the URL the attribute names, after a
  check of that URL against the domain the page trusts.

  Markup is HTML text, abstractly: what \<^verbatim>\<open>innerHTML\<close> returns and what \<^verbatim>\<open>insertAdjacentHTML\<close>
  accepts, as the HTML parser reads it. Tag names are local names as the parser leaves them
  (lower case for HTML elements), and so are attribute names (lower case on HTML elements,
  possibly mixed case on SVG elements, as in \<^verbatim>\<open>viewBox\<close>).
\<close>

type_synonym attrs = "(string \<times> string) list"

datatype markup = MElement string attrs "markup list" | MText string

text \<open>The outcome of \<^verbatim>\<open>fetch\<close>: a rejected promise, or a response with its status and the
  text of its body.\<close>

datatype response = NetworkError | Response nat string

text \<open>
  The script reads three things from the browser before it touches the document: the
  \<^verbatim>\<open>data-domain\<close> attribute of its own script tag, the location of the page, and the language
  of the navigator. They are gathered in the record \<open>browser\<close>, together with the three
  services of the platform the script calls: the constructor \<^verbatim>\<open>new URL(url, base)\<close> (\<open>None\<close>
  stands for the TypeError it throws), \<^verbatim>\<open>fetch\<close>, and the HTML parser that turns the text of
  a response into markup. Every general theorem below holds whatever these three are.
\<close>

record url =
  protocol :: string
  hostname :: string
  port :: string
  pathname :: string

record browser =
  data_domain :: "string option"
  location :: url
  language :: "string option"
  userLanguage :: "string option"
  newURL :: "string \<Rightarrow> string \<Rightarrow> url option"
  fetch :: "string \<Rightarrow> response"
  parseHTML :: "string \<Rightarrow> markup list"

text \<open>The origin of a URL: scheme, host and (when present) port.\<close>

definition origin :: "url \<Rightarrow> string" where
  "origin u = protocol u @ ''//'' @ hostname u @ (if port u = [] then [] else '':'' @ port u)"

text \<open>JavaScript's \<^verbatim>\<open>a || b\<close> on values that are a string, null or undefined: the empty
  string, null and undefined are falsy.\<close>

definition js_or :: "string option \<Rightarrow> string option \<Rightarrow> string option" where
  "js_or a b = (case a of None \<Rightarrow> b | Some s \<Rightarrow> if s = [] then b else Some s)"

text \<open>\<^verbatim>\<open>const domain = document.currentScript.getAttribute('data-domain') || window.location.hostname;\<close>\<close>

definition domain :: "browser \<Rightarrow> string" where
  "domain env = (case js_or (data_domain env) (Some (hostname (location env))) of
                   None \<Rightarrow> [] | Some d \<Rightarrow> d)"

text \<open>\<^verbatim>\<open>(navigator.language || navigator.userLanguage).split('-')[0]\<close>: when both are
  missing, the method call on undefined throws (\<open>None\<close>).\<close>

definition lang :: "browser \<Rightarrow> string option" where
  "lang env = (case js_or (language env) (userLanguage env) of
                 None \<Rightarrow> None
               | Some l \<Rightarrow> Some (takeWhile (\<lambda>c. c \<noteq> CHR ''-'') l))"

text \<open>The two messages of the alert. The second letter of \<^verbatim>\<open>pagina\<close> carries an acute accent
  in the source: it is the character with code 0xE1.\<close>

definition message_es :: string where
  "message_es = ''Esta p'' @ [CHR 0xE1]
                @ ''gina contiene conexiones no seguras. Pulse aceptar para ignorar.''"

definition message_en :: string where
  "message_en = ''This page cotains unsecure connections. Press accept to ignore.''"

definition message :: "string \<Rightarrow> string" where
  "message l = (if l = ''es'' then message_es else message_en)"

section \<open>The validity check of a source URL\<close>

text \<open>What the page can observe of a run, in order.\<close>

datatype event =
    LogInvalidURL
  | LogError
  | Alert string
  | FetchGET string

text \<open>
  The \<^verbatim>\<open>try\<close> block of \<^verbatim>\<open>embedElements\<close>. The result says whether the placeholder goes on to
  the fetch (\<open>True\<close>) or is ignored, together with the events of the block. Every throw
  inside the block (the URL constructor, the method call on a missing language) lands in the
  \<^verbatim>\<open>catch\<close>, which logs and ignores the placeholder.
\<close>

definition checkSource :: "browser \<Rightarrow> string \<Rightarrow> bool \<times> event list" where
  "checkSource env u =
     (case newURL env u (domain env) of
        None \<Rightarrow> (False, [LogInvalidURL])
      | Some parsedURL \<Rightarrow>
          if hostname parsedURL \<noteq> domain env then (False, [])
          else (case lang env of
                  None \<Rightarrow> (False, [LogInvalidURL])
                | Some l \<Rightarrow>
                    (True, if protocol parsedURL = ''http:'' then [Alert (message l)] else [])))"

definition trusted :: "browser \<Rightarrow> string \<Rightarrow> bool" where
  "trusted env u = fst (checkSource env u)"

subsection \<open>The URL constructor\<close>

text \<open>
  A model of \<^verbatim>\<open>new URL(url, base)\<close> after the URL Standard, for the URLs written as
  \<^verbatim>\<open>scheme://host[:port][/path]\<close> or \<^verbatim>\<open>scheme:path\<close> and for the references relative to them
  (\<^verbatim>\<open>//host/path\<close>, \<^verbatim>\<open>/path\<close>, \<^verbatim>\<open>path\<close>).
  \<^item> The base is parsed first, on its own. A base that is not an absolute URL (a bare host
    name, the empty string) makes the constructor throw, whatever the first argument is. A
    base such as \<^verbatim>\<open>localhost:8080\<close> is an absolute URL: its scheme is \<^verbatim>\<open>localhost\<close> and its path
    the opaque \<^verbatim>\<open>8080\<close>; it has no host, and no relative reference resolves against it.
  \<^item> A candidate with a scheme is parsed on its own, and the constructor throws when that
    fails (\<^verbatim>\<open>https://\<close> has no host). A candidate written with the scheme of the base, when
    that is a special scheme, and no \<^verbatim>\<open>//\<close> after it is a relative reference.
  \<^item> Scheme and host are put in lower case, and the default port of the scheme is dropped.
  Outside the model: credentials before the host, IPv6 literals, back slashes,
  percent-encoding, the removal of dot segments and of white space, the validation of host
  names and ports, and the host of a \<^verbatim>\<open>file\<close> URL. The query and the fragment are parsed and
  dropped: the record has no field for them.
\<close>

definition lower_char :: "char \<Rightarrow> char" where
  "lower_char c = (case map_of (zip ''ABCDEFGHIJKLMNOPQRSTUVWXYZ'' ''abcdefghijklmnopqrstuvwxyz'') c of
                     None \<Rightarrow> c | Some d \<Rightarrow> d)"

definition lowercase :: "string \<Rightarrow> string" where
  "lowercase s = map lower_char s"

definition scheme_chars :: "char set" where
  "scheme_chars = set ''abcdefghijklmnopqrstuvwxyzABCDEFGHIJKLMNOPQRSTUVWXYZ0123456789+-.''"

definition letters :: "char set" where
  "letters = set ''abcdefghijklmnopqrstuvwxyzABCDEFGHIJKLMNOPQRSTUVWXYZ''"

definition special :: "string \<Rightarrow> bool" where
  "special scheme = (scheme \<in> set [''http'', ''https'', ''ws'', ''wss'', ''ftp'', ''file''])"

definition default_port :: "string \<Rightarrow> string" where
  "default_port scheme =
     (if scheme = ''http'' \<or> scheme = ''ws'' then ''80''
      else if scheme = ''https'' \<or> scheme = ''wss'' then ''443''
      else if scheme = ''ftp'' then ''21'' else [])"

text \<open>The scheme of a string, in lower case, and what follows its colon.\<close>

definition scheme_of :: "string \<Rightarrow> (string \<times> string) option" where
  "scheme_of s =
     (let scheme = takeWhile (\<lambda>c. c \<noteq> CHR '':'') s
      in if scheme \<noteq> [] \<and> hd scheme \<in> letters \<and> set scheme \<subseteq> scheme_chars
            \<and> length scheme < length s
         then Some (lowercase scheme, drop (Suc (length scheme)) s)
         else None)"

definition path_part :: "string \<Rightarrow> string" where
  "path_part s = takeWhile (\<lambda>c. c \<notin> set ''?#'') s"

text \<open>What follows \<^verbatim>\<open>scheme://\<close>: host, port and path.\<close>

definition parse_hier :: "string \<Rightarrow> string \<Rightarrow> url option" where
  "parse_hier scheme s =
     (let authority = takeWhile (\<lambda>c. c \<notin> set ''/?#'') s;
          name = takeWhile (\<lambda>c. c \<noteq> CHR '':'') authority;
          host = (if special scheme then lowercase name else name);
          number = drop (Suc (length name)) authority;
          path = path_part (drop (length authority) s)
      in if special scheme \<and> scheme \<noteq> ''file'' \<and> host = [] then None
         else Some \<lparr>protocol = scheme @ '':'', hostname = host,
                    port = (if number = default_port scheme then [] else number),
                    pathname = (if path = [] \<and> special scheme then ''/'' else path)\<rparr>)"

text \<open>What follows the slashes that announce a host, when they are there. After a special
  scheme other than \<^verbatim>\<open>file\<close> a host always follows, behind any number of slashes.\<close>

definition after_slashes :: "string \<Rightarrow> string \<Rightarrow> string option" where
  "after_slashes scheme rest =
     (if special scheme \<and> scheme \<noteq> ''file'' then Some (dropWhile (\<lambda>c. c = CHR ''/'') rest)
      else if take 2 rest = ''//'' then Some (drop 2 rest)
      else None)"

text \<open>An absolute URL, and whether its path is opaque.\<close>

definition parse_absolute :: "string \<Rightarrow> (url \<times> bool) option" where
  "parse_absolute s =
     (case scheme_of s of
        None \<Rightarrow> None
      | Some (scheme, rest) \<Rightarrow>
          (case after_slashes scheme rest of
             Some r \<Rightarrow> map_option (\<lambda>u. (u, False)) (parse_hier scheme r)
           | None \<Rightarrow>
               if scheme = ''file''
               then Some (\<lparr>protocol = ''file:'', hostname = [], port = [],
                           pathname = (if take 1 rest = ''/'' then [] else ''/'') @ path_part rest\<rparr>,
                          False)
               else Some (\<lparr>protocol = scheme @ '':'', hostname = [], port = [],
                           pathname = path_part rest\<rparr>,
                          take 1 rest \<noteq> ''/'')))"

text \<open>The path of the base up to and including its last slash.\<close>

definition dirname :: "string \<Rightarrow> string" where
  "dirname p = (if CHR ''/'' \<in> set p then rev (dropWhile (\<lambda>c. c \<noteq> CHR ''/'') (rev p)) else ''/'')"

text \<open>A reference without a scheme, against the base \<open>b\<close>.\<close>

definition resolve :: "string \<Rightarrow> url \<Rightarrow> url option" where
  "resolve r b =
     (if take 2 r = ''//''
      then (case after_slashes (butlast (protocol b)) r of
              None \<Rightarrow> None
            | Some a \<Rightarrow> parse_hier (butlast (protocol b)) a)
      else if path_part r = [] then Some b
      else if take 1 r = ''/'' then Some (b\<lparr>pathname := path_part r\<rparr>)
      else Some (b\<lparr>pathname := dirname (pathname b) @ path_part r\<rparr>))"

definition URL_new :: "string \<Rightarrow> string \<Rightarrow> url option" where
  "URL_new u base =
     (case parse_absolute base of
        None \<Rightarrow> None
      | Some (b, opaque) \<Rightarrow>
          (case scheme_of u of
             Some (scheme, rest) \<Rightarrow>
               if special scheme \<and> scheme @ '':'' = protocol b \<and> take 2 rest \<noteq> ''//''
               then resolve rest b
               else map_option fst (parse_absolute u)
           | None \<Rightarrow>
               if opaque then (if take 1 u = ''#'' then Some b else None)
               else resolve u b))"

section \<open>The document tree\<close>

text \<open>
  A node of the tree is an element or a text node. An element carries its identity (a
  number): JavaScript holds references to nodes, and two elements with the same tag,
  attributes and content are still two nodes.

  The HTML parser does not make the markup inside a \<^verbatim>\<open>template\<close> element into children of
  that element: it goes to the template's contents, a fragment of another document that no
  query on the page enters and that \<^verbatim>\<open>innerHTML\<close> serialises in place of the children. An
  \<open>Inert\<close> node under a template element is one item of its contents, kept as markup.
\<close>

datatype node = Element nat string attrs "node list" | Text string | Inert markup

fun node_id :: "node \<Rightarrow> nat option" where
  "node_id (Element i t a cs) = Some i"
| "node_id (Text s) = None"
| "node_id (Inert m) = None"

fun the_id :: "node \<Rightarrow> nat" where
  "the_id (Element i t a cs) = i"
| "the_id (Text s) = 0"
| "the_id (Inert m) = 0"

fun tagName :: "node \<Rightarrow> string" where
  "tagName (Element i t a cs) = t"
| "tagName (Text s) = []"
| "tagName (Inert m) = []"

fun attributes :: "node \<Rightarrow> attrs" where
  "attributes (Element i t a cs) = a"
| "attributes (Text s) = []"
| "attributes (Inert m) = []"

fun childNodes :: "node \<Rightarrow> node list" where
  "childNodes (Element i t a cs) = cs"
| "childNodes (Text s) = []"
| "childNodes (Inert m) = []"

fun isElement :: "node \<Rightarrow> bool" where
  "isElement (Element i t a cs) = True"
| "isElement (Text s) = False"
| "isElement (Inert m) = False"

text \<open>The contents of a template element, given its child list.\<close>

fun inert_of :: "node list \<Rightarrow> markup list" where
  "inert_of [] = []"
| "inert_of (Inert m # cs) = m # inert_of cs"
| "inert_of (Element i t a ks # cs) = inert_of cs"
| "inert_of (Text s # cs) = inert_of cs"

text \<open>Serialisation (\<^verbatim>\<open>outerHTML\<close>, \<^verbatim>\<open>innerHTML\<close>) forgets the identities.\<close>

fun serialize :: "node \<Rightarrow> markup"
  and serialize_all :: "node list \<Rightarrow> markup list" where
  "serialize (Element i t a cs) =
     MElement t a (if t = ''template'' then inert_of cs else serialize_all cs)"
| "serialize (Text s) = MText s"
| "serialize_all [] = []"
| "serialize_all (c # cs) = serialize c # serialize_all cs"
| "serialize (Inert m) = m"

definition innerHTML :: "node \<Rightarrow> markup list" where
  "innerHTML n = (if tagName n = ''template'' then inert_of (childNodes n)
                  else serialize_all (childNodes n))"

text \<open>Parsing markup builds new nodes; \<open>k\<close> is the next unused identity.\<close>

fun parse_node :: "nat \<Rightarrow> markup \<Rightarrow> node \<times> nat"
  and parse_nodes :: "nat \<Rightarrow> markup list \<Rightarrow> node list \<times> nat" where
  "parse_node k (MText s) = (Text s, k)"
| "parse_node k (MElement t a ms) =
     (if t = ''template'' then (Element k t a (map Inert ms), Suc k)
      else (case parse_nodes (Suc k) ms of (cs, k') \<Rightarrow> (Element k t a cs, k')))"
| "parse_nodes k [] = ([], k)"
| "parse_nodes k (m # ms) =
     (case parse_node k m of (c, k') \<Rightarrow>
        (case parse_nodes k' ms of (cs, k'') \<Rightarrow> (c # cs, k'')))"

text \<open>\<^verbatim>\<open>element.innerHTML = html\<close> on a new element with the tag \<open>t\<close>: the children it gets.\<close>

definition parse_children :: "string \<Rightarrow> nat \<Rightarrow> markup list \<Rightarrow> node list \<times> nat" where
  "parse_children t k html = (if t = ''template'' then (map Inert html, k) else parse_nodes k html)"

text \<open>The elements of a tree in document order (preorder), the root included.\<close>

fun elements_of :: "node \<Rightarrow> node list"
  and elements_in :: "node list \<Rightarrow> node list" where
  "elements_of (Text s) = []"
| "elements_of (Element i t a cs) = Element i t a cs # elements_in cs"
| "elements_in [] = []"
| "elements_in (c # cs) = elements_of c @ elements_in cs"
| "elements_of (Inert m) = []"

definition ids_of :: "node \<Rightarrow> nat list" where
  "ids_of n = map the_id (elements_of n)"

definition ids_in :: "node list \<Rightarrow> nat list" where
  "ids_in ns = map the_id (elements_in ns)"

fun find_node :: "nat \<Rightarrow> node \<Rightarrow> node option"
  and find_nodes :: "nat \<Rightarrow> node list \<Rightarrow> node option" where
  "find_node p (Text s) = None"
| "find_node p (Element i t a cs) =
     (if i = p then Some (Element i t a cs) else find_nodes p cs)"
| "find_nodes p [] = None"
| "find_nodes p (c # cs) =
     (case find_node p c of Some n \<Rightarrow> Some n | None \<Rightarrow> find_nodes p cs)"
| "find_node p (Inert m) = None"

definition has_child :: "nat \<Rightarrow> node list \<Rightarrow> bool" where
  "has_child p cs = (Some p \<in> set (map node_id cs))"

text \<open>The child list that holds the element \<open>p\<close>, and a change to that list.\<close>

fun siblings_of :: "nat \<Rightarrow> node \<Rightarrow> node list option"
  and siblings_in :: "nat \<Rightarrow> node list \<Rightarrow> node list option" where
  "siblings_of p (Text s) = None"
| "siblings_of p (Element i t a cs) = (if has_child p cs then Some cs else siblings_in p cs)"
| "siblings_in p [] = None"
| "siblings_in p (c # cs) =
     (case siblings_of p c of Some s \<Rightarrow> Some s | None \<Rightarrow> siblings_in p cs)"
| "siblings_of p (Inert m) = None"

fun app_sibs :: "nat \<Rightarrow> (node list \<Rightarrow> node list) \<Rightarrow> node \<Rightarrow> node"
  and app_sibs_in :: "nat \<Rightarrow> (node list \<Rightarrow> node list) \<Rightarrow> node list \<Rightarrow> node list" where
  "app_sibs p f (Text s) = Text s"
| "app_sibs p f (Element i t a cs) =
     Element i t a (if has_child p cs then f cs else app_sibs_in p f cs)"
| "app_sibs_in p f [] = []"
| "app_sibs_in p f (c # cs) = app_sibs p f c # app_sibs_in p f cs"
| "app_sibs p f (Inert m) = Inert m"

text \<open>Taking the element \<open>p\<close> out of a tree.\<close>

fun rm_node :: "nat \<Rightarrow> node \<Rightarrow> node"
  and rm_nodes :: "nat \<Rightarrow> node list \<Rightarrow> node list" where
  "rm_node p (Text s) = Text s"
| "rm_node p (Element i t a cs) = Element i t a (rm_nodes p cs)"
| "rm_nodes p [] = []"
| "rm_nodes p (c # cs) =
     (if node_id c = Some p then rm_nodes p cs else rm_node p c # rm_nodes p cs)"
| "rm_node p (Inert m) = Inert m"

fun insert_after :: "nat \<Rightarrow> node list \<Rightarrow> node list \<Rightarrow> node list" where
  "insert_after p new [] = []"
| "insert_after p new (c # cs) =
     (if node_id c = Some p then c # new @ cs else c # insert_after p new cs)"

fun following :: "nat \<Rightarrow> node list \<Rightarrow> node list" where
  "following p [] = []"
| "following p (c # cs) = (if node_id c = Some p then cs else following p cs)"

fun prepend_in :: "nat \<Rightarrow> node list \<Rightarrow> node \<Rightarrow> node"
  and prepend_all :: "nat \<Rightarrow> node list \<Rightarrow> node list \<Rightarrow> node list" where
  "prepend_in e new (Text s) = Text s"
| "prepend_in e new (Element i t a cs) =
     (if i = e then Element i t a (new @ cs) else Element i t a (prepend_all e new cs))"
| "prepend_all e new [] = []"
| "prepend_all e new (c # cs) = prepend_in e new c # prepend_all e new cs"
| "prepend_in e new (Inert m) = Inert m"

section \<open>The state of the page and the DOM operations the script calls\<close>

text \<open>
  The state holds the children of the \<^verbatim>\<open>Document\<close> node, the trees that are not (or no
  longer) part of the document, and the next unused identity. A reference to a node is its
  identity, looked up in the document first and among the detached trees next.
\<close>

record dom =
  document :: "node list"
  detached :: "node list"
  next_id :: nat

datatype exn = NoModificationAllowedError | TypeError | InvalidCharacterError

definition lookup :: "nat \<Rightarrow> dom \<Rightarrow> node option" where
  "lookup p st = find_nodes p (document st @ detached st)"

text \<open>\<^verbatim>\<open>node.remove()\<close>: the node leaves its parent and becomes the root of a detached tree.\<close>

definition remove :: "nat \<Rightarrow> dom \<Rightarrow> dom" where
  "remove p st =
     (case lookup p st of
        None \<Rightarrow> st
      | Some n \<Rightarrow> st\<lparr>document := rm_nodes p (document st),
                        detached := rm_nodes p (detached st) @ [n]\<rparr>)"

text \<open>\<^verbatim>\<open>p.insertAdjacentHTML('afterend', html)\<close> throws when the parent of \<open>p\<close> is the
  \<^verbatim>\<open>Document\<close> or when \<open>p\<close> has no parent.\<close>

definition insertAdjacentHTML_afterend :: "nat \<Rightarrow> markup list \<Rightarrow> dom \<Rightarrow> exn + dom" where
  "insertAdjacentHTML_afterend p html st =
     (if has_child p (document st) \<or> has_child p (detached st)
      then Inl NoModificationAllowedError
      else (case parse_nodes (next_id st) html of
              (new, k) \<Rightarrow>
                Inr (st\<lparr>document := app_sibs_in p (insert_after p new) (document st),
                         detached := app_sibs_in p (insert_after p new) (detached st),
                         next_id := k\<rparr>)))"

definition nextElementSibling :: "nat \<Rightarrow> dom \<Rightarrow> nat option" where
  "nextElementSibling p st =
     (case siblings_in p (document st @ detached st) of
        None \<Rightarrow> None
      | Some sibs \<Rightarrow>
          (case filter isElement (following p sibs) of
             [] \<Rightarrow> None
           | e # es \<Rightarrow> node_id e))"

text \<open>\<^verbatim>\<open>e.prepend(...new)\<close>\<close>

definition prepend :: "nat \<Rightarrow> node list \<Rightarrow> dom \<Rightarrow> dom" where
  "prepend e new st = st\<lparr>document := prepend_all e new (document st),
                           detached := prepend_all e new (detached st)\<rparr>"

text \<open>\<^verbatim>\<open>n.getAttribute(k)\<close> and \<^verbatim>\<open>n.getAttributeNames()\<close>. The script asks only for the name of
  the placeholder attribute, which is in lower case, and for names it got from
  \<^verbatim>\<open>getAttributeNames\<close>: for these the name is found as it is written.\<close>

definition getAttribute :: "node \<Rightarrow> string \<Rightarrow> string option" where
  "getAttribute n k = map_of (attributes n) k"

definition getAttributeNames :: "node \<Rightarrow> string list" where
  "getAttributeNames n = map fst (attributes n)"

text \<open>A value that may be null, used where a string is expected.\<close>

definition js_string :: "string option \<Rightarrow> string" where
  "js_string v = (case v of None \<Rightarrow> ''null'' | Some s \<Rightarrow> s)"

text \<open>
  \<^verbatim>\<open>element.setAttribute(name, value)\<close> on an HTML element of an HTML document, which is what
  \<^verbatim>\<open>document.createElement\<close> returns. It throws InvalidCharacterError when the name is not a
  valid attribute name: after the DOM Standard, when it is empty or contains ASCII white
  space, NUL, \<^verbatim>\<open>/\<close>, \<^verbatim>\<open>=\<close> or \<^verbatim>\<open>>\<close> (engines that still check the \<^verbatim>\<open>Name\<close> production of XML
  reject these names too, and more). The HTML parser accepts such names: it reads
  \<^verbatim>\<open><link =foo rel=stylesheet>\<close> as a link with the attributes \<^verbatim>\<open>=foo\<close> and \<^verbatim>\<open>rel\<close>. Otherwise
  the name is put in lower case, and the attribute of that name is changed, or added last.
\<close>

definition invalid_name_chars :: "char set" where
  "invalid_name_chars =
     {CHR 0x00, CHR 0x09, CHR 0x0A, CHR 0x0C, CHR 0x0D, CHR 0x20, CHR ''/'', CHR ''='', CHR ''>''}"

definition valid_attribute_name :: "string \<Rightarrow> bool" where
  "valid_attribute_name k = (k \<noteq> [] \<and> list_all (\<lambda>c. c \<notin> invalid_name_chars) k)"

fun put :: "string \<Rightarrow> string \<Rightarrow> attrs \<Rightarrow> attrs" where
  "put k v [] = [(k, v)]"
| "put k v ((k', v') # as) = (if k' = k then (k, v) # as else (k', v') # put k v as)"

definition setAttribute :: "string \<Rightarrow> string \<Rightarrow> attrs \<Rightarrow> exn + attrs" where
  "setAttribute k v as =
     (if valid_attribute_name k then Inr (put (lowercase k) v as) else Inl InvalidCharacterError)"

section \<open>getClonedElements\<close>

text \<open>
  The script calls \<^verbatim>\<open>getClonedElements\<close> with the selector \<^verbatim>\<open>'script'\<close> and with the selector
  \<^verbatim>\<open>'link'\<close>, and with no other. These two type selectors are the selectors of the model. A
  type selector matches the elements that have its name as their local name.
\<close>

datatype selector = Script | Link

fun local_name :: "selector \<Rightarrow> string" where
  "local_name Script = ''script''"
| "local_name Link = ''link''"

text \<open>\<^verbatim>\<open>container.querySelectorAll(selector)\<close>: the matching descendants of the container, in
  document order, as a static list of references. The contents of a template element are
  not among its descendants.\<close>

definition querySelectorAll :: "selector \<Rightarrow> node \<Rightarrow> nat list" where
  "querySelectorAll selector n =
     map the_id (filter (\<lambda>e. tagName e = local_name selector) (elements_in (childNodes n)))"

text \<open>The inner loop: \<^verbatim>\<open>selected.getAttributeNames().forEach(...)\<close>. It stops at the first
  name that \<^verbatim>\<open>setAttribute\<close> rejects.\<close>

fun setAttributes :: "node \<Rightarrow> string list \<Rightarrow> attrs \<Rightarrow> exn + attrs" where
  "setAttributes selected [] as = Inr as"
| "setAttributes selected (attribute # names) as =
     (case setAttribute attribute (js_string (getAttribute selected attribute)) as of
        Inl e \<Rightarrow> Inl e
      | Inr as' \<Rightarrow> setAttributes selected names as')"

text \<open>The body of the outer loop up to \<^verbatim>\<open>elements.push\<close>: a new element with the tag of the
  selected one, every attribute set from the selected element, and the inner markup parsed
  anew. \<open>k\<close> is the identity of the new element.\<close>

definition clone :: "node \<Rightarrow> nat \<Rightarrow> exn + node \<times> nat" where
  "clone selected k =
     (case setAttributes selected (getAttributeNames selected) [] of
        Inl e \<Rightarrow> Inl e
      | Inr as \<Rightarrow>
          (case parse_children (tagName selected) (Suc k) (innerHTML selected) of
             (kids, k') \<Rightarrow> Inr (Element k (tagName selected) as kids, k')))"

text \<open>
  The outer loop over the static list of matches. An exception ends it: the elements
  cloned so far are lost with the array, and what was removed stays removed.
\<close>

fun clone_all :: "bool \<Rightarrow> nat list \<Rightarrow> node list \<times> dom \<Rightarrow> (exn + node list) \<times> dom" where
  "clone_all rm [] (elements, st) = (Inr elements, st)"
| "clone_all rm (i # matches) (elements, st) =
     (case lookup i st of
        None \<Rightarrow> clone_all rm matches (elements, st)
      | Some selected \<Rightarrow>
          (case clone selected (next_id st) of
             Inl e \<Rightarrow> (Inl e, st\<lparr>next_id := Suc (next_id st)\<rparr>)
           | Inr (element, k) \<Rightarrow>
               clone_all rm matches
                 (elements @ [element],
                  if rm then remove i (st\<lparr>next_id := k\<rparr>) else st\<lparr>next_id := k\<rparr>)))"

definition getClonedElements ::
  "nat \<Rightarrow> selector \<Rightarrow> bool \<Rightarrow> dom \<Rightarrow> (exn + node list) \<times> dom" where
  "getClonedElements container selector rm st =
     (case lookup container st of
        None \<Rightarrow> (Inr [], st)
      | Some c \<Rightarrow> clone_all rm (querySelectorAll selector c) ([], st))"

section \<open>embedElement\<close>

text \<open>\<^verbatim>\<open>const temp = document.createElement('div'); temp.innerHTML = sourceHTML;\<close>\<close>

definition createContainer :: "markup list \<Rightarrow> dom \<Rightarrow> nat \<times> dom" where
  "createContainer html st =
     (case parse_nodes (Suc (next_id st)) html of
        (kids, k) \<Rightarrow>
          (next_id st,
           st\<lparr>detached := detached st @ [Element (next_id st) ''div'' [] kids],
              next_id := k\<rparr>))"

text \<open>
  The function returns the state it leaves behind together with the exception it threw, if
  any: what it did to the document before throwing stays done.
\<close>

definition embedElement ::
  "(string \<Rightarrow> markup list) \<Rightarrow> nat \<Rightarrow> string \<Rightarrow> dom \<Rightarrow> dom \<times> exn option" where
  "embedElement parser placeholder sourceHTML st =
     (case createContainer (parser sourceHTML) st of
        (temp, st0) \<Rightarrow>
     (case getClonedElements temp Script True st0 of
        (Inl e, st1) \<Rightarrow> (st1, Some e)
      | (Inr scriptEls, st1) \<Rightarrow>
     (case getClonedElements temp Link True st1 of
        (Inl e, st2) \<Rightarrow> (st2, Some e)
      | (Inr linkEls, st2) \<Rightarrow>
     (case insertAdjacentHTML_afterend placeholder
             (case lookup temp st2 of None \<Rightarrow> [] | Some t \<Rightarrow> innerHTML t) st2 of
        Inl e \<Rightarrow> (st2, Some e)
      | Inr st3 \<Rightarrow>
          (case nextElementSibling placeholder st3 of
             None \<Rightarrow> (st3, Some TypeError)
           | Some element \<Rightarrow>
               (remove temp (prepend element linkEls (prepend element scriptEls st3)),
                None))))))"


section \<open>embedElements\<close>

text \<open>\<^verbatim>\<open>String.prototype.trim\<close> on the white space that a \<open>char\<close> can hold.\<close>

definition whitespace :: "char set" where
  "whitespace = {CHR 0x09, CHR 0x0A, CHR 0x0B, CHR 0x0C, CHR 0x0D, CHR 0x20, CHR 0xA0}"

definition trim :: "string \<Rightarrow> string" where
  "trim s = rev (dropWhile (\<lambda>c. c \<in> whitespace) (rev (dropWhile (\<lambda>c. c \<in> whitespace) s)))"

text \<open>\<^verbatim>\<open>response.ok\<close>\<close>

definition ok :: "nat \<Rightarrow> bool" where
  "ok status = (200 \<le> status \<and> status \<le> 299)"

text \<open>\<^verbatim>\<open>document.querySelectorAll(`[${attributeName}]`)\<close>\<close>

definition placeholders :: "string \<Rightarrow> dom \<Rightarrow> nat list" where
  "placeholders attributeName st =
     map the_id (filter (\<lambda>e. attributeName \<in> set (getAttributeNames e))
                        (elements_in (document st)))"

text \<open>
  The synchronous part of the loop body for one placeholder: the check of the URL and, when
  it passes, the call of \<^verbatim>\<open>fetch\<close>. The result is the list of the requests now pending (none
  or one) and the events.
\<close>

definition request :: "browser \<Rightarrow> string \<Rightarrow> dom \<Rightarrow> nat \<Rightarrow> (nat \<times> string) list \<times> event list" where
  "request env attributeName st placeholder =
     (case lookup placeholder st of
        None \<Rightarrow> ([], [])
      | Some n \<Rightarrow>
          (let u = js_string (getAttribute n attributeName)
           in (case checkSource env u of
                 (False, evs) \<Rightarrow> ([], evs)
               | (True, evs) \<Rightarrow> ([(placeholder, u)], evs @ [FetchGET u]))))"

text \<open>
  The asynchronous part: the two \<^verbatim>\<open>then\<close> callbacks and the \<^verbatim>\<open>catch\<close> of one pending request,
  run when its fetch has settled.
\<close>

definition settle :: "browser \<Rightarrow> nat \<times> string \<Rightarrow> dom \<Rightarrow> dom \<times> event list" where
  "settle env pu st =
     (case pu of (placeholder, u) \<Rightarrow>
        (case fetch env u of
           NetworkError \<Rightarrow> (st, [LogError])
         | Response status sourceHTML \<Rightarrow>
             if \<not> ok status then (st, [LogError])
             else if trim sourceHTML \<noteq> []
             then (case embedElement (parseHTML env) placeholder sourceHTML st of
                     (st', Some e) \<Rightarrow> (st', [LogError])
                   | (st', None) \<Rightarrow> (remove placeholder st', []))
             else (remove placeholder st, [])))"

fun drain :: "browser \<Rightarrow> (nat \<times> string) list \<Rightarrow> dom \<times> event list \<Rightarrow> dom \<times> event list" where
  "drain env [] acc = acc"
| "drain env (pu # rest) acc =
     (case acc of (st, evs) \<Rightarrow>
        (case settle env pu st of (st', evs') \<Rightarrow> drain env rest (st', evs @ evs')))"

text \<open>
  The whole pass. The requests settle in an order the script does not control: \<open>schedule\<close>
  is that order, a rearrangement of the pending requests.
\<close>

definition embedElements ::
  "browser \<Rightarrow> ((nat \<times> string) list \<Rightarrow> (nat \<times> string) list) \<Rightarrow> string \<Rightarrow> dom \<Rightarrow> dom \<times> event list" where
  "embedElements env schedule attributeName st =
     (let started = map (request env attributeName st) (placeholders attributeName st)
      in drain env (schedule (concat (map fst started))) (st, concat (map snd started)))"


section \<open>Notions used in the statements and in the proofs\<close>







subsection \<open>What the specification says about a fragment, on markup\<close>

text \<open>
  The static content of a fragment is the fragment \<open>without_all\<close> its script elements and
  then its link elements; \<open>select_all\<close> lists the elements with a given tag in document
  order. Neither looks into a template. \<open>same_markup\<close> relates a clone to the markup of
  its source. \<open>rm_many\<close> takes a set of elements out of a tree at once.
\<close>

fun mtag :: "markup \<Rightarrow> string option" where
  "mtag (MElement t a ms) = Some t"
| "mtag (MText s) = None"

fun without :: "string \<Rightarrow> markup \<Rightarrow> markup"
  and without_all :: "string \<Rightarrow> markup list \<Rightarrow> markup list" where
  "without tag (MText s) = MText s"
| "without tag (MElement t a ms) =
     MElement t a (if t = ''template'' then ms else without_all tag ms)"
| "without_all tag [] = []"
| "without_all tag (m # ms) =
     (if mtag m = Some tag then without_all tag ms else without tag m # without_all tag ms)"

fun select :: "string \<Rightarrow> markup \<Rightarrow> markup list"
  and select_all :: "string \<Rightarrow> markup list \<Rightarrow> markup list" where
  "select tag (MText s) = []"
| "select tag (MElement t a ms) =
     (if t = tag then [MElement t a ms] else [])
     @ (if t = ''template'' then [] else select_all tag ms)"
| "select_all tag [] = []"
| "select_all tag (m # ms) = select tag m @ select_all tag ms"



section \<open>Concrete pages\<close>

text \<open>
  A page served from \<^verbatim>\<open>https://site.example/index.html\<close> whose body holds one placeholder,
  \<^verbatim>\<open><div data-embedsrc="/frag.html"></div>\<close>, followed by a footer; and the same page without
  the footer.
\<close>

definition site :: url where
  "site = \<lparr>protocol = ''https:'', hostname = ''site.example'', port = [],
           pathname = ''/index.html''\<rparr>"

definition page0 :: dom where
  "page0 = \<lparr>document = [Element 0 ''html'' [] [Element 1 ''body'' []
               [Element 2 ''div'' [(''data-embedsrc'', ''/frag.html'')] [],
                Element 3 ''footer'' [] []]]],
            detached = [], next_id = 4\<rparr>"

definition page1 :: dom where
  "page1 = \<lparr>document = [Element 0 ''html'' [] [Element 1 ''body'' []
               [Element 2 ''div'' [(''data-embedsrc'', ''/frag.html'')] []]]],
            detached = [], next_id = 3\<rparr>"

text \<open>The fragment of the end-to-end scenario and what the HTML parser makes of it.\<close>

definition fragA :: string where
  "fragA = ''<p>hi</p><script>window.__x=1</script>''"

definition parserA :: "string \<Rightarrow> markup list" where
  "parserA s = (if s = fragA
                then [MElement ''p'' [] [MText ''hi''],
                      MElement ''script'' [] [MText ''window.__x=1'']]
                else [])"

text \<open>The page with no \<^verbatim>\<open>data-domain\<close> on the script tag, and the pages that declare
  \<^verbatim>\<open>data-domain="https://cdn.example"\<close> and \<^verbatim>\<open>data-domain="cdn.example"\<close>, the two forms that the
  header comment of the script gives.\<close>

definition plain_page :: browser where
  "plain_page = \<lparr>data_domain = None, location = site, language = Some ''en-US'',
                  userLanguage = None, newURL = URL_new,
                  fetch = (\<lambda>u. Response 200 fragA), parseHTML = parserA\<rparr>"

definition cdn_page :: browser where
  "cdn_page = plain_page\<lparr>data_domain := Some ''https://cdn.example''\<rparr>"

definition host_page :: browser where
  "host_page = plain_page\<lparr>data_domain := Some ''cdn.example''\<rparr>"

text \<open>
  The same site served over \<^verbatim>\<open>http:\<close> to a Spanish-speaking user, without a declaration and
  with \<^verbatim>\<open>data-domain="http://site.example"\<close>, and its page with a placeholder that names a
  fragment of the site itself by its full URL.
\<close>

definition http_site :: url where
  "http_site = \<lparr>protocol = ''http:'', hostname = ''site.example'', port = [],
                pathname = ''/index.html''\<rparr>"

definition http_page :: browser where
  "http_page = plain_page\<lparr>location := http_site, language := Some ''es-ES''\<rparr>"

definition http_declared_page :: browser where
  "http_declared_page = http_page\<lparr>data_domain := Some ''http://site.example''\<rparr>"

definition page2 :: dom where
  "page2 = \<lparr>document = [Element 0 ''html'' [] [Element 1 ''body'' []
               [Element 2 ''div'' [(''data-embedsrc'', ''http://site.example/frag.html'')] [],
                Element 3 ''footer'' [] []]]],
            detached = [], next_id = 4\<rparr>"

text \<open>Servers that answer with a blank body, not at all, and with 404.\<close>

definition blank_page :: browser where
  "blank_page = plain_page\<lparr>fetch := (\<lambda>u. Response 200 [CHR 0x20, CHR 0x0A])\<rparr>"

definition offline_page :: browser where
  "offline_page = plain_page\<lparr>fetch := (\<lambda>u. NetworkError)\<rparr>"

definition missing_page :: browser where
  "missing_page = plain_page\<lparr>fetch := (\<lambda>u. Response 404 ''Not Found'')\<rparr>"

text \<open>A fragment that is one script, a fragment with a paragraph, a script and a link, and
  a fragment that is one link whose first attribute name starts with an equals sign.\<close>

definition fragS :: string where
  "fragS = ''<script>a()</script>''"

definition parserS :: "string \<Rightarrow> markup list" where
  "parserS s = (if s = fragS then [MElement ''script'' [] [MText ''a()'']] else [])"

definition fragB :: string where
  "fragB = ''<p>hi</p><script>a()</script><link rel=stylesheet>''"

definition parserB :: "string \<Rightarrow> markup list" where
  "parserB s = (if s = fragB
                then [MElement ''p'' [] [MText ''hi''], MElement ''script'' [] [MText ''a()''],
                      MElement ''link'' [(''rel'', ''stylesheet'')] []]
                else [])"

definition fragL :: string where
  "fragL = ''<link =foo rel=stylesheet>''"

definition parserL :: "string \<Rightarrow> markup list" where
  "parserL s = (if s = fragL
                then [MElement ''link'' [(''=foo'', []), (''rel'', ''stylesheet'')] []]
                else [])"

definition link_page :: browser where
  "link_page = plain_page\<lparr>fetch := (\<lambda>u. Response 200 fragL), parseHTML := parserL\<rparr>"

text \<open>The page \<open>page0\<close> after \<^verbatim>\<open>embedElement\<close> has run on its placeholder with the fragment of
  the end-to-end scenario and with the fragment \<open>fragB\<close>.\<close>

definition page0_after_A :: dom where
  "page0_after_A =
     \<lparr>document = [Element 0 ''html'' [] [Element 1 ''body'' []
         [Element 2 ''div'' [(''data-embedsrc'', ''/frag.html'')] [],
          Element 8 ''p'' [] [Element 7 ''script'' [] [Text ''window.__x=1''], Text ''hi''],
          Element 3 ''footer'' [] []]]],
       detached = [Element 6 ''script'' [] [Text ''window.__x=1''],
                   Element 4 ''div'' [] [Element 5 ''p'' [] [Text ''hi'']]],
       next_id = 9\<rparr>"


text \<open>
  Two detached containers. The first holds three links, the second of them written
  \<^verbatim>\<open><link =foo rel=stylesheet>\<close>. The second holds what the parser makes of
  \<^verbatim>\<open><svg><script viewBox="0 0 1 1">b()</script></svg>\<close>: on an SVG element the parser writes
  the attribute name \<^verbatim>\<open>viewBox\<close> with its capital letter.
\<close>

definition boxL :: dom where
  "boxL = \<lparr>document = [],
           detached = [Element 0 ''div'' []
                         [Element 1 ''link'' [(''rel'', ''stylesheet''), (''href'', ''a.css'')] [],
                          Element 2 ''link'' [(''=foo'', []), (''rel'', ''stylesheet'')] [],
                          Element 3 ''link'' [(''rel'', ''stylesheet''), (''href'', ''b.css'')] []]],
           next_id = 4\<rparr>"

definition boxV :: dom where
  "boxV = \<lparr>document = [],
           detached = [Element 0 ''div'' []
                         [Element 1 ''svg'' []
                            [Element 2 ''script'' [(''viewBox'', ''0 0 1 1'')] [Text ''b()'']]]],
           next_id = 3\<rparr>"

text \<open>A detached container with what the parser makes of
  \<^verbatim>\<open><template><script>x()</script></template>\<close>.\<close>

definition boxT :: dom where
  "boxT = \<lparr>document = [],
           detached = [Element 0 ''div'' []
                         [Element 1 ''template'' []
                            [Inert (MElement ''script'' [] [MText ''x()''])]]],
           next_id = 2\<rparr>"



section \<open>Facts about the URL constructor\<close>

lemmas url_defs = URL_new_def parse_absolute_def after_slashes_def parse_hier_def scheme_of_def
  path_part_def
  resolve_def special_def default_port_def lowercase_def lower_char_def dirname_def Let_def
  letters_def scheme_chars_def origin_def domain_def js_or_def lang_def trusted_def checkSource_def

lemmas embed_defs = embedElement_def createContainer_def getClonedElements_def lookup_def
  querySelectorAll_def clone_def parse_children_def innerHTML_def getAttribute_def getAttributeNames_def js_string_def
  setAttribute_def valid_attribute_name_def invalid_name_chars_def lowercase_def lower_char_def
  remove_def insertAdjacentHTML_afterend_def has_child_def nextElementSibling_def prepend_def

lemmas frag_defs = fragA_def parserA_def fragS_def parserS_def fragB_def parserB_def
  fragL_def parserL_def

lemmas page_defs = plain_page_def cdn_page_def host_page_def http_page_def http_declared_page_def
  blank_page_def offline_page_def
  missing_page_def link_page_def site_def http_site_def page0_def page1_def page2_def

text \<open>
  With this constructor the check never passes, whatever the page declares: the constructor
  returns only when the base \<open>domain\<close> is an absolute URL, which has a colon, and the host name
  of a parsed URL has none.
\<close>

lemma scheme_of_colon: "scheme_of s = Some x \<Longrightarrow> CHR '':'' \<in> set s"
proof (rule ccontr)
  assume a: "scheme_of s = Some x" and n: "CHR '':'' \<notin> set s"
  have "\<forall>c\<in>set s. c \<noteq> CHR '':''" using n by metis
  then have t: "takeWhile (\<lambda>c. c \<noteq> CHR '':'') s = s"
    by (rule takeWhile_eq_all_conv[THEN iffD2])
  have "scheme_of s = None" unfolding scheme_of_def Let_def t by simp
  then show False using a by simp
qed

lemma lower_char_colon: "lower_char c = CHR '':'' \<Longrightarrow> c = CHR '':''"
  by (simp add: lower_char_def split: option.splits if_splits)

lemma lowercase_colon: "CHR '':'' \<in> set (lowercase s) \<Longrightarrow> CHR '':'' \<in> set s"
  using lower_char_colon by (fastforce simp: lowercase_def)

lemma parse_hier_hostname:
  assumes "parse_hier scheme s = Some u"
  shows "CHR '':'' \<notin> set (hostname u)"
proof -
  let ?name = "takeWhile (\<lambda>c. c \<noteq> CHR '':'') (takeWhile (\<lambda>c. c \<notin> set ''/?#'') s)"
  have n: "CHR '':'' \<notin> set ?name" by (auto dest: set_takeWhileD)
  have "hostname u = lowercase ?name \<or> hostname u = ?name"
    using assms by (auto simp: parse_hier_def Let_def split: if_splits)
  then show ?thesis using n lowercase_colon by metis
qed

lemma parse_absolute_hostname:
  assumes "parse_absolute s = Some (u, q)"
  shows "CHR '':'' \<notin> set (hostname u)"
proof -
  have "(\<exists>scheme r. parse_hier scheme r = Some u) \<or> hostname u = []"
    using assms by (auto simp: parse_absolute_def split: option.splits if_splits) blast
  then show ?thesis using parse_hier_hostname by auto
qed

lemma resolve_hostname:
  assumes "resolve r b = Some u" and "CHR '':'' \<notin> set (hostname b)"
  shows "CHR '':'' \<notin> set (hostname u)"
proof -
  have "(\<exists>scheme r. parse_hier scheme r = Some u) \<or> hostname u = hostname b"
    using assms(1) by (auto simp: resolve_def split: if_splits option.splits)
  then show ?thesis using parse_hier_hostname assms(2) by auto
qed

lemma URL_new_hostname:
  assumes "URL_new u base = Some p"
  shows "CHR '':'' \<notin> set (hostname p)"
proof -
  obtain b q where b: "parse_absolute base = Some (b, q)"
    using assms by (auto simp: URL_new_def split: option.splits)
  have hb: "CHR '':'' \<notin> set (hostname b)" using parse_absolute_hostname[OF b] .
  have "(\<exists>r. resolve r b = Some p) \<or> (\<exists>q'. parse_absolute u = Some (p, q')) \<or> p = b"
    using assms b by (auto simp: URL_new_def split: option.splits if_splits)
  then show ?thesis using resolve_hostname hb parse_absolute_hostname by blast
qed

lemma URL_new_base:
  assumes "URL_new u base = Some p"
  shows "CHR '':'' \<in> set base"
proof -
  obtain x where "scheme_of base = Some x"
    using assms by (auto simp: URL_new_def parse_absolute_def split: option.splits)
  then show ?thesis by (rule scheme_of_colon)
qed

lemma URL_new_never_trusted:
  assumes "newURL env = URL_new"
  shows "\<not> trusted env u"
proof
  assume "trusted env u"
  then obtain p where p: "URL_new u (domain env) = Some p" and h: "hostname p = domain env"
    using assms by (auto simp: trusted_def checkSource_def split: option.splits if_splits)
  show False using URL_new_hostname[OF p] URL_new_base[OF p] h by simp
qed

section \<open>Facts about the tree functions\<close>

lemma ids_of_simps [simp]:
  "ids_of (Text s) = []"
  "ids_of (Inert m) = []"
  "ids_of (Element i t a cs) = i # ids_in cs"
  by (simp_all add: ids_of_def ids_in_def)

lemma ids_in_simps [simp]:
  "ids_in [] = []"
  "ids_in (c # cs) = ids_of c @ ids_in cs"
  by (simp_all add: ids_of_def ids_in_def)

lemma elements_in_append [simp]: "elements_in (xs @ ys) = elements_in xs @ elements_in ys"
  by (induction xs) simp_all

lemma ids_in_append [simp]: "ids_in (xs @ ys) = ids_in xs @ ids_in ys"
  by (simp add: ids_in_def)

lemma node_id_Some: "node_id c = Some p \<Longrightarrow> p \<in> set (ids_of c)"
  by (cases c) auto

lemma rm_ids_subset:
  "set (ids_of (rm_node p n))
     \<subseteq> set (ids_of n) - {p} \<union> (if node_id n = Some p then {p} else {})"
  "set (ids_in (rm_nodes p ns)) \<subseteq> set (ids_in ns) - {p}"
  by (induction p n and p ns rule: rm_node_rm_nodes.induct) (auto dest: node_id_Some)

lemma rm_nodes_absent: "p \<notin> set (ids_in (rm_nodes p ns))"
  using rm_ids_subset(2) by blast

lemma find_None_iff:
  "find_node p n = None \<longleftrightarrow> p \<notin> set (ids_of n)"
  "find_nodes p ns = None \<longleftrightarrow> p \<notin> set (ids_in ns)"
  by (induction p n and p ns rule: find_node_find_nodes.induct) (auto split: option.splits)


lemma rm_id:
  "p \<notin> set (ids_of n) \<Longrightarrow> rm_node p n = n"
  "p \<notin> set (ids_in ns) \<Longrightarrow> rm_nodes p ns = ns"
  by (induction p n and p ns rule: rm_node_rm_nodes.induct) (auto dest: node_id_Some)

lemma rm_nodes_append [simp]: "rm_nodes p (xs @ ys) = rm_nodes p xs @ rm_nodes p ys"
  by (induction xs) simp_all









lemma inert_of_map [simp]: "inert_of (map Inert ms) = ms"
  by (induction ms) simp_all

lemma elements_in_map_Inert [simp]: "elements_in (map Inert ms) = []"
  by (induction ms) simp_all

lemma ids_in_map_Inert [simp]: "ids_in (map Inert ms) = []"
  by (simp add: ids_in_def)














lemma node_id_rm [simp]: "node_id (rm_node p n) = node_id n"
  by (cases n) simp_all










lemma rm_node_same [simp]: "isElement (rm_node p c) = isElement c" "the_id (rm_node p c) = the_id c"
  by (cases c; simp)+












lemma has_child_app [simp]: "has_child p (app_sibs_in q f ns) = has_child p ns"
proof (induction ns)
  case (Cons c cs)
  then show ?case by (cases c) (auto simp: has_child_def)
qed (simp add: has_child_def)

















section \<open>The trust check\<close>

text \<open>
  C1. A candidate whose origin is the origin of the page must be accepted whatever the page
  has declared. The script does not do that: on the page \<^verbatim>\<open>https://site.example/index.html\<close>
  that declares \<^verbatim>\<open>data-domain="https://cdn.example"\<close>, the candidate
  \<^verbatim>\<open>https://site.example/frag.html\<close> resolves to the origin of the page and is rejected,
  because the declaration replaces the host name of the page instead of being added to it.
\<close>

theorem own_origin_rejected:
  "newURL cdn_page ''https://site.example/frag.html'' (domain cdn_page)
     = Some \<lparr>protocol = ''https:'', hostname = ''site.example'', port = [],
              pathname = ''/frag.html''\<rparr>
   \<and> origin \<lparr>protocol = ''https:'', hostname = ''site.example'', port = [],
              pathname = ''/frag.html''\<rparr>
     = origin (location cdn_page)
   \<and> \<not> trusted cdn_page ''https://site.example/frag.html''"
  by (simp add: page_defs url_defs)

text \<open>
  C2. A candidate whose origin is an origin the page has declared must be trusted. The
  script does not trust it. On the page that declares \<^verbatim>\<open>data-domain="https://cdn.example"\<close>, the
  candidate \<^verbatim>\<open>https://cdn.example/frag.html\<close> has exactly the declared origin and is rejected:
  the check compares the host name of the candidate, \<^verbatim>\<open>cdn.example\<close>, with the whole
  declaration. On the page that declares the bare \<^verbatim>\<open>data-domain="cdn.example"\<close>, the other form
  of the header comment, the same candidate is rejected as well: the URL constructor throws
  on that base.
\<close>

theorem configured_origin_rejected:
  "newURL cdn_page ''https://cdn.example/frag.html'' (domain cdn_page)
     = Some \<lparr>protocol = ''https:'', hostname = ''cdn.example'', port = [],
              pathname = ''/frag.html''\<rparr>
   \<and> data_domain cdn_page
     = Some (origin \<lparr>protocol = ''https:'', hostname = ''cdn.example'', port = [],
                     pathname = ''/frag.html''\<rparr>)
   \<and> \<not> trusted cdn_page ''https://cdn.example/frag.html''
   \<and> checkSource host_page ''https://cdn.example/frag.html'' = (False, [LogInvalidURL])"
  by (simp add: page_defs url_defs)

text \<open>
  C9. A candidate with the scheme \<^verbatim>\<open>http:\<close> that the page must trust is to be fetched after a
  warning in the language of the navigator. The script gives no warning and fetches nothing.
  On the page \<^verbatim>\<open>http://site.example/index.html\<close> of a navigator whose language is \<^verbatim>\<open>es-ES\<close>,
  the placeholder names \<^verbatim>\<open>http://site.example/frag.html\<close>, a URL of the origin of the page.
  Without a declaration the URL constructor throws on the base \<^verbatim>\<open>site.example\<close>: the run logs
  the error, and shows and requests nothing. With the declaration
  \<^verbatim>\<open>data-domain="http://site.example"\<close> the candidate parses, its host name is not the
  declaration, and the run ends with no event at all. In both runs the document stays as it
  was.
\<close>

theorem insecure_source_is_ignored:
  "origin (location http_page) = ''http://site.example''
   \<and> lang http_page = Some ''es''
   \<and> checkSource http_page ''http://site.example/frag.html'' = (False, [LogInvalidURL])
   \<and> embedElements http_page id ''data-embedsrc'' page2 = (page2, [LogInvalidURL])
   \<and> newURL http_declared_page ''http://site.example/frag.html'' (domain http_declared_page)
       = Some \<lparr>protocol = ''http:'', hostname = ''site.example'', port = [],
                pathname = ''/frag.html''\<rparr>
   \<and> checkSource http_declared_page ''http://site.example/frag.html'' = (False, [])
   \<and> embedElements http_declared_page id ''data-embedsrc'' page2 = (page2, [])"
  by (simp add: page_defs url_defs embedElements_def placeholders_def request_def lookup_def
        getAttribute_def getAttributeNames_def js_string_def)

section \<open>One placeholder\<close>

text \<open>
  C3. The end-to-end scenario: the page \<^verbatim>\<open>https://site.example/index.html\<close>, no
  \<^verbatim>\<open>data-domain\<close>, one placeholder with \<^verbatim>\<open>data-embedsrc="/frag.html"\<close>, and a server that
  answers 200 with the fragment. The candidate is resolved against \<open>domain\<close>, which is the
  bare host name \<^verbatim>\<open>site.example\<close> and not the location of the page; the URL constructor throws
  on that base, the \<^verbatim>\<open>catch\<close> logs, and the run ends with the document as it was: the
  placeholder is still there, nothing was fetched, nothing was inserted.
\<close>

theorem scenario_A_is_ignored:
  "embedElements plain_page id ''data-embedsrc'' page0 = (page0, [LogInvalidURL])"
  by (simp add: page_defs url_defs embedElements_def placeholders_def request_def lookup_def
        getAttribute_def getAttributeNames_def js_string_def)

text \<open>
  C7. When the fetch of a placeholder succeeds with a body that is empty or white space
  only, nothing is embedded and the placeholder is removed: the document afterwards is the
  document before with the placeholder taken out, and nothing is logged.
\<close>

theorem empty_body_removes_placeholder:
  assumes "fetch env u = Response status body" and "ok status" and "trim body = []"
  shows "settle env (p, u) st = (remove p st, [])
       \<and> document (remove p st) = rm_nodes p (document st)
       \<and> p \<notin> set (ids_in (document (remove p st)))"
proof -
  have "settle env (p, u) st = (remove p st, [])"
    using assms by (simp add: settle_def)
  moreover have "document (remove p st) = rm_nodes p (document st)"
  proof (cases "lookup p st")
    case None
    then have "p \<notin> set (ids_in (document st))"
      by (simp add: lookup_def find_None_iff)
    then show ?thesis using None by (simp add: remove_def rm_id)
  next
    case (Some n)
    then show ?thesis by (simp add: remove_def)
  qed
  ultimately show ?thesis using rm_nodes_absent by simp
qed

theorem empty_body_removes_placeholder_witness:
  "fetch blank_page ''/frag.html'' = Response 200 [CHR 0x20, CHR 0x0A]
   \<and> ok 200 \<and> trim [CHR 0x20, CHR 0x0A] = []
   \<and> settle blank_page (2, ''/frag.html'') page0 = (remove 2 page0, [])
   \<and> document (remove 2 page0)
       = [Element 0 ''html'' [] [Element 1 ''body'' [] [Element 3 ''footer'' [] []]]]"
  using empty_body_removes_placeholder [of blank_page "''/frag.html''" 200
      "[CHR 0x20, CHR 0x0A]" 2 page0]
  by (simp add: page_defs ok_def trim_def whitespace_def)



section \<open>The cloner\<close>

text \<open>
  C6. Every matched element is to be cloned with its attributes, and every matched original
  is to leave the container. The cloner copies an attribute with \<^verbatim>\<open>setAttribute\<close>, which
  rejects names that the HTML parser accepts and puts the others in lower case. In the
  container with the three links, the second link has the attribute \<^verbatim>\<open>=foo\<close>: the first link is
  cloned and removed, \<^verbatim>\<open>setAttribute\<close> throws on the second, \<^verbatim>\<open>getClonedElements\<close> ends with that
  exception instead of a list of clones, and the second and third link are still in the
  container. In the container with the SVG script the call returns, and the clone has the
  attribute \<^verbatim>\<open>viewbox\<close> where its source has \<^verbatim>\<open>viewBox\<close>.
\<close>

theorem cloner_fails_on_parsed_attribute_names:
  "getClonedElements 0 Link True boxL
     = (Inl InvalidCharacterError,
        \<lparr>document = [],
           detached = [Element 0 ''div'' []
                         [Element 2 ''link'' [(''=foo'', []), (''rel'', ''stylesheet'')] [],
                          Element 3 ''link'' [(''rel'', ''stylesheet''), (''href'', ''b.css'')] []],
                       Element 1 ''link'' [(''rel'', ''stylesheet''), (''href'', ''a.css'')] []],
           next_id = 6\<rparr>)
   \<and> getClonedElements 0 Script True boxV
     = (Inr [Element 3 ''script'' [(''viewbox'', ''0 0 1 1'')] [Text ''b()'']],
        \<lparr>document = [],
           detached = [Element 0 ''div'' [] [Element 1 ''svg'' [] []],
                       Element 2 ''script'' [(''viewBox'', ''0 0 1 1'')] [Text ''b()'']],
           next_id = 4\<rparr>)"
  by (simp add: boxL_def boxV_def embed_defs)

text \<open>
  A script inside a template is part of the contents of the template. The parser keeps it
  there, the cloner does not find it, and it stays in the inner markup of the container,
  which is what \<^verbatim>\<open>embedElement\<close> inserts after the placeholder.
\<close>

lemma template_contents_are_kept:
  "parse_nodes 1 [MElement ''template'' [] [MElement ''script'' [] [MText ''x()'']]]
     = ([Element 1 ''template'' [] [Inert (MElement ''script'' [] [MText ''x()''])]], 2)
   \<and> getClonedElements 0 Script True boxT = (Inr [], boxT)
   \<and> innerHTML (Element 0 ''div'' []
         [Element 1 ''template'' [] [Inert (MElement ''script'' [] [MText ''x()''])]])
     = [MElement ''template'' [] [MElement ''script'' [] [MText ''x()'']]]"
  by (simp add: boxT_def embed_defs)

section \<open>The embedder\<close>

text \<open>
  What \<^verbatim>\<open>embedElement\<close> does with the fragment of the end-to-end scenario, called on the
  placeholder of the page with the footer: the paragraph is inserted after the placeholder
  and the clone of the script becomes its first child. The original script and the container
  end up detached.
\<close>

lemma embedElement_scenario_A:
  "embedElement parserA 2 fragA page0 = (page0_after_A, None)"
  by (simp add: page_defs frag_defs embed_defs page0_after_A_def)

text \<open>
  C4. Every script and link element of the fragment is to be put back into the document.
  The embedder loses them when no element follows the placeholder: on the page without a
  footer the fragment \<^verbatim>\<open><script>a()</script>\<close> has a script element, and after \<^verbatim>\<open>embedElement\<close>
  the document is what it was. The static content is empty, \<^verbatim>\<open>nextElementSibling\<close> is null,
  the call of \<^verbatim>\<open>prepend\<close> on it throws, and the clone of the script is never put into the
  document.
\<close>

theorem script_only_fragment_is_lost:
  "select_all ''script'' (parserS fragS) = [MElement ''script'' [] [MText ''a()'']]
   \<and> embedElement parserS 2 fragS page1
     = (\<lparr>document = [Element 0 ''html'' [] [Element 1 ''body'' []
            [Element 2 ''div'' [(''data-embedsrc'', ''/frag.html'')] []]]],
         detached = [Element 3 ''div'' [] [], Element 4 ''script'' [] [Text ''a()'']],
         next_id = 6\<rparr>, Some TypeError)"
  by (simp add: page_defs frag_defs embed_defs)




text \<open>
  C10. A fragment whose static content is empty is to have its clones prepended into the
  element that followed the placeholder before. For the fragment
  \<^verbatim>\<open><link =foo rel=stylesheet>\<close> on the page with the footer that does not happen: the static
  content is empty and the footer follows the placeholder, but \<^verbatim>\<open>setAttribute\<close> throws on the
  name \<^verbatim>\<open>=foo\<close> while the link is cloned, \<^verbatim>\<open>embedElement\<close> ends with that exception before it
  inserts anything, the \<^verbatim>\<open>catch\<close> of the placeholder logs the error, and the document stays as
  it was: the footer has no child and the placeholder is not removed.
\<close>

theorem rejected_name_leaves_placeholder:
  "without_all ''link'' (without_all ''script'' (parseHTML link_page fragL)) = []
   \<and> nextElementSibling 2 page0 = Some 3
   \<and> embedElement (parseHTML link_page) 2 fragL page0
     = (\<lparr>document = document page0,
         detached = [Element 4 ''div'' []
                       [Element 5 ''link'' [(''=foo'', []), (''rel'', ''stylesheet'')] []]],
         next_id = 7\<rparr>, Some InvalidCharacterError)
   \<and> settle link_page (2, ''/frag.html'') page0
     = (\<lparr>document = document page0,
         detached = [Element 4 ''div'' []
                       [Element 5 ''link'' [(''=foo'', []), (''rel'', ''stylesheet'')] []]],
         next_id = 7\<rparr>, [LogError])"
  by (simp add: page_defs frag_defs embed_defs settle_def ok_def trim_def whitespace_def)

end
